theory Spec2Isabelle
  imports Complex_Main
begin

section \<open>Python strings\<close>

text \<open>
  A Python \<open>str\<close> is a sequence of Unicode code points. A code point is modelled as a
  natural number and a string as a list of them, so that \<open>str.strip\<close> sees the same
  characters as the interpreter does (a \<open>char\<close> of HOL is one byte only). \<open>lit\<close> embeds
  an ASCII literal of the source.
\<close>

type_synonym codepoint = nat
type_synonym str = "codepoint list"

definition lit :: "string \<Rightarrow> str" where
  "lit s = map of_char s"

text \<open>
  \<open>str.isspace\<close> on one code point: the table of CPython's \<open>_PyUnicode_IsWhitespace\<close>,
  which \<open>str.strip()\<close> without argument uses.
\<close>

definition isspace :: "codepoint \<Rightarrow> bool" where
  "isspace c \<longleftrightarrow>
     (9 \<le> c \<and> c \<le> 13) \<or> (28 \<le> c \<and> c \<le> 32) \<or> c = 133 \<or> c = 160 \<or> c = 5760 \<or>
     (8192 \<le> c \<and> c \<le> 8202) \<or> c = 8232 \<or> c = 8233 \<or> c = 8239 \<or> c = 8287 \<or>
     c = 12288"

text \<open>\<open>s.strip()\<close>: leading and trailing whitespace removed.\<close>

definition str_strip :: "str \<Rightarrow> str" where
  "str_strip s = rev (dropWhile isspace (rev (dropWhile isspace s)))"

text \<open>
  \<open>s.split(sep)\<close> for a one-character separator: the segments between the separators,
  empty ones included; the empty string gives one empty segment.
\<close>

fun str_split :: "codepoint \<Rightarrow> str \<Rightarrow> str list" where
  "str_split sep [] = [[]]"
| "str_split sep (c # cs) =
     (if c = sep then [] # str_split sep cs
      else (case str_split sep cs of
              [] \<Rightarrow> [[c]]
            | seg # segs \<Rightarrow> (c # seg) # segs))"

text \<open>\<open>sep.join(xs)\<close>.\<close>

fun str_join :: "str \<Rightarrow> str list \<Rightarrow> str" where
  "str_join sep [] = []"
| "str_join sep [x] = x"
| "str_join sep (x # y # ys) = x @ sep @ str_join sep (y # ys)"

definition comma :: codepoint where
  "comma = 44"

text \<open>Truth value of a string: \<open>not s\<close> holds for the empty string only.\<close>

definition truthy :: "str \<Rightarrow> bool" where
  "truthy s \<longleftrightarrow> s \<noteq> []"

section \<open>Exceptions\<close>

text \<open>
  The values of Python's \<open>Exception\<close> class that the code can meet: the ones its own
  subscripts and attribute accesses raise, whatever the client library raises on a call
  (network, authentication, timeout, provider error), kept with its detail, and the
  \<open>OpenAIError\<close> that the constructor of its client raises.
\<close>

datatype exn =
    KeyError str
  | IndexError
  | AttributeError
  | APIError str
  | OpenAIError

section \<open>Tone configuration\<close>

record tone_style =
  label :: str
  instruction :: str

definition casual_style :: tone_style where
  "casual_style = \<lparr>
     label = lit ''Casual'',
     instruction =
       lit ''Write in a friendly, conversational tone, like you're talking to a friend. '' @
       lit ''Use simple language and a relaxed style.'' \<rparr>"

definition professional_style :: tone_style where
  "professional_style = \<lparr>
     label = lit ''Professional'',
     instruction =
       lit ''Write in a clear, concise, and professional tone suitable for a corporate audience. '' @
       lit ''Avoid slang and keep it polished.'' \<rparr>"

definition enthusiastic_style :: tone_style where
  "enthusiastic_style = \<lparr>
     label = lit ''Enthusiastic'',
     instruction =
       lit ''Write in an energetic and upbeat tone that builds excitement. '' @
       lit ''Use strong, positive language that makes the product feel irresistible.'' \<rparr>"

definition technical_style :: tone_style where
  "technical_style = \<lparr>
     label = lit ''Technical'',
     instruction =
       lit ''Write in a technical, detail-oriented tone. '' @
       lit ''Emphasize specifications, performance, and measurable benefits.'' \<rparr>"

definition luxury_style :: tone_style where
  "luxury_style = \<lparr>
     label = lit ''Luxury'',
     instruction =
       lit ''Write in a premium, luxurious tone. '' @
       lit ''Highlight exclusivity, craftsmanship, and high-end lifestyle benefits.'' \<rparr>"

text \<open>The dict \<open>TONE_STYLES\<close>, in the order of the source.\<close>

definition TONE_STYLES_items :: "(str \<times> tone_style) list" where
  "TONE_STYLES_items =
     [(lit ''casual'', casual_style),
      (lit ''professional'', professional_style),
      (lit ''enthusiastic'', enthusiastic_style),
      (lit ''technical'', technical_style),
      (lit ''luxury'', luxury_style)]"

definition TONE_STYLES :: "str \<rightharpoonup> tone_style" where
  "TONE_STYLES = map_of TONE_STYLES_items"

text \<open>\<open>d[k]\<close> raises \<open>KeyError\<close> on a missing key; \<open>d.get(k, default)\<close> does not.\<close>

definition dict_getitem :: "(str \<rightharpoonup> 'v) \<Rightarrow> str \<Rightarrow> exn + 'v" where
  "dict_getitem d k = (case d k of None \<Rightarrow> Inl (KeyError k) | Some v \<Rightarrow> Inr v)"

definition dict_get :: "(str \<rightharpoonup> 'v) \<Rightarrow> str \<Rightarrow> 'v \<Rightarrow> 'v" where
  "dict_get d k dflt = (case d k of None \<Rightarrow> dflt | Some v \<Rightarrow> v)"

text \<open>
  Line 77, \<open>TONE_STYLES.get(tone_key, TONE_STYLES["professional"])\<close>: the default is
  an argument, so the subscript is evaluated first and its \<open>KeyError\<close> would propagate.
\<close>

definition resolve_tone :: "str \<Rightarrow> exn + tone_style" where
  "resolve_tone tone_key =
     (case dict_getitem TONE_STYLES (lit ''professional'') of
        Inl e \<Rightarrow> Inl e
      | Inr dflt \<Rightarrow> Inr (dict_get TONE_STYLES tone_key dflt))"

section \<open>The helper that calls OpenAI\<close>

text \<open>
  The request is the keyword arguments of \<open>client.chat.completions.create\<close>; each
  message is the dict literal of the source, as its items. The response is what the
  code reads of it, \<open>response.choices[0].message.content\<close>; the client library types
  the content as an optional string.
\<close>

record api_request =
  model :: str
  messages :: "(str \<times> str) list list"
  temperature :: rat
  max_tokens :: int

record completion_message =
  content :: "str option"

record choice =
  message :: completion_message

record chat_completion =
  choices :: "choice list"

definition en_dash :: codepoint where
  "en_dash = 8211"

definition system_message :: str where
  "system_message =
     lit ''You are an expert retail copywriter specializing in writing product descriptions '' @
     lit ''that increase conversions. Always write in plain text (no markdown). '' @
     lit ''Write 1'' @ [en_dash] @ lit ''3 short paragraphs and optionally 3'' @ [en_dash] @
     lit ''5 bullet-style phrases separated by commas '' @
     lit ''for key benefits. Keep the description between 120 and 220 words.''"

text \<open>Lines 81 and 82.\<close>

definition keyword_list :: "str \<Rightarrow> str list" where
  "keyword_list keywords =
     map str_strip (filter (\<lambda>k. truthy (str_strip k)) (str_split comma keywords))"

definition keyword_str :: "str \<Rightarrow> str" where
  "keyword_str keywords =
     (if keyword_list keywords \<noteq> [] then str_join (lit '', '') (keyword_list keywords)
      else lit ''None'')"

text \<open>
  Lines 91 to 101: the f-string pieces and the fixed lines, concatenated. \<open>tone\<close> is the
  resolved tone and \<open>tone_instruction\<close> its instruction.
\<close>

definition user_message :: "str \<Rightarrow> tone_style \<Rightarrow> str \<Rightarrow> str \<Rightarrow> str" where
  "user_message product_name tone tone_instruction kw_str =
     lit ''Product name: '' @ product_name @ lit ''\<newline>'' @
     lit ''Tone: '' @ label tone @ lit ''\<newline>'' @
     lit ''Tone Instructions: '' @ tone_instruction @ lit ''\<newline>'' @
     lit ''Keywords to incorporate naturally: '' @ kw_str @ lit ''\<newline>\<newline>'' @
     lit ''Write a compelling product description that:\<newline>'' @
     lit ''- Matches the tone described above\<newline>'' @
     lit ''- Naturally weaves in the keywords without sounding forced\<newline>'' @
     lit ''- Focuses on benefits, not just features\<newline>'' @
     lit ''- Speaks directly to retail customers shopping online\<newline>''"

text \<open>
  \<open>generate_product_description\<close>. \<open>create\<close> is the external call
  \<open>client.chat.completions.create\<close>: it returns a response or raises, and
  \<open>chat_request\<close> is its keyword arguments (lines 103 to 111). The first component
  of the result lists the requests sent to it, the second is the value returned or the
  exception raised.
\<close>

definition chat_request :: "str \<Rightarrow> str \<Rightarrow> api_request" where
  "chat_request sys_msg usr_msg =
     \<lparr> model = lit ''gpt-4o-mini'',
       messages =
         [[(lit ''role'', lit ''system''), (lit ''content'', sys_msg)],
          [(lit ''role'', lit ''user''), (lit ''content'', usr_msg)]],
       temperature = 8 / 10,
       max_tokens = 300 \<rparr>"

definition generate_product_description ::
  "(api_request \<Rightarrow> exn + chat_completion) \<Rightarrow> str \<Rightarrow> str \<Rightarrow> str \<Rightarrow> api_request list \<times> (exn + str)"
where
  "generate_product_description create product_name keywords tone_key =
     (case resolve_tone tone_key of
        Inl e \<Rightarrow> ([], Inl e)
      | Inr tone \<Rightarrow>
          (let tone_instruction = instruction tone;
               kw_str = keyword_str keywords;
               req = chat_request system_message
                       (user_message product_name tone tone_instruction kw_str)
           in ([req],
               (case create req of
                  Inl e \<Rightarrow> Inl e
                | Inr response \<Rightarrow>
                    (case choices response of
                       [] \<Rightarrow> Inl IndexError
                     | c # _ \<Rightarrow>
                         (case content (message c) of
                            None \<Rightarrow> Inl AttributeError
                          | Some text \<Rightarrow> Inr (str_strip text)))))))"

section \<open>The route\<close>

text \<open>
  The Flask request as \<open>index\<close> reads it: the method and the form, whose \<open>get\<close> takes a
  default. What \<open>index\<close> does to the world is returned with the page: the messages
  flashed (text and category), the records logged, and the requests sent to OpenAI.
\<close>

record flask_request =
  "method" :: str
  form :: "str \<rightharpoonup> str"

record template_context =
  template :: str
  tones :: "str \<rightharpoonup> tone_style"
  generated_text :: "str option"
  ctx_product_name :: str
  ctx_keywords :: str
  selected_tone :: str

datatype log_record = LogException str exn | LogWarning str

record outcome =
  rendered :: template_context
  flashed :: "(str \<times> str) list"
  logged :: "log_record list"
  api_calls :: "api_request list"

definition render_template :: "str option \<Rightarrow> str \<Rightarrow> str \<Rightarrow> str \<Rightarrow> template_context" where
  "render_template gen form_product_name form_keywords form_tone =
     \<lparr> template = lit ''index.html'',
       tones = TONE_STYLES,
       generated_text = gen,
       ctx_product_name = form_product_name,
       ctx_keywords = form_keywords,
       selected_tone = form_tone \<rparr>"

text \<open>\<open>not OPENAI_API_KEY\<close>: the variable is unset or empty.\<close>

definition key_missing :: "str option \<Rightarrow> bool" where
  "key_missing k = (case k of None \<Rightarrow> True | Some s \<Rightarrow> \<not> truthy s)"

definition index ::
  "(api_request \<Rightarrow> exn + chat_completion) \<Rightarrow> str option \<Rightarrow> flask_request \<Rightarrow> outcome"
where
  "index create OPENAI_API_KEY request =
     (if method request = lit ''POST'' then
        (let form_product_name = str_strip (dict_get (form request) (lit ''product_name'') []);
             form_keywords = str_strip (dict_get (form request) (lit ''keywords'') []);
             form_tone = dict_get (form request) (lit ''tone'') (lit ''professional'')
         in if \<not> truthy form_product_name then
              \<lparr> rendered = render_template None form_product_name form_keywords form_tone,
                flashed = [(lit ''Please enter a product name.'', lit ''warning'')],
                logged = [],
                api_calls = [] \<rparr>
            else if key_missing OPENAI_API_KEY then
              \<lparr> rendered = render_template None form_product_name form_keywords form_tone,
                flashed =
                  [(lit ''OpenAI API key is not configured. Please set OPENAI_API_KEY and restart the app.'',
                    lit ''danger'')],
                logged = [],
                api_calls = [] \<rparr>
            else
              (case generate_product_description create form_product_name form_keywords form_tone of
                 (calls, Inr text) \<Rightarrow>
                   \<lparr> rendered = render_template (Some text) form_product_name form_keywords form_tone,
                     flashed = [],
                     logged = [],
                     api_calls = calls \<rparr>
               | (calls, Inl e) \<Rightarrow>
                   \<lparr> rendered = render_template None form_product_name form_keywords form_tone,
                     flashed =
                       [(lit ''Sorry, something went wrong while generating the description. '' @
                         lit ''Please try again.'',
                         lit ''danger'')],
                     logged = [LogException (lit ''Error while generating product description: %s'') e],
                     api_calls = calls \<rparr>))
      else
        \<lparr> rendered = render_template None [] [] (lit ''professional''),
          flashed = [],
          logged = [],
          api_calls = [] \<rparr>)"

section \<open>Module import\<close>

text \<open>
  Lines 20 to 26 run once, when the module is imported, before any request is served.
  \<open>OPENAI_API_KEY\<close> is the value of the environment variable, \<open>None\<close> when it is unset.
  The constructor \<open>OpenAI\<close> belongs to the client library: given no key, it reads the
  same environment variable, and raises \<open>OpenAIError\<close> when that is unset too; an empty
  string is a key for it. The module state is the key and the client.
\<close>

datatype openai_client = Client str

definition OpenAI :: "str option \<Rightarrow> str option \<Rightarrow> exn + openai_client" where
  "OpenAI api_key environ_key =
     (case api_key of
        Some k \<Rightarrow> Inr (Client k)
      | None \<Rightarrow>
          (case environ_key of
             Some k \<Rightarrow> Inr (Client k)
           | None \<Rightarrow> Inl OpenAIError))"

definition module_import ::
  "str option \<Rightarrow> log_record list \<times> (exn + str option \<times> openai_client)"
where
  "module_import environ_key =
     (let OPENAI_API_KEY = environ_key;
          warned =
            (if key_missing OPENAI_API_KEY then
               [LogWarning
                  (lit ''OPENAI_API_KEY is not set. The app will run, but API calls will fail.'')]
             else [])
      in (warned,
          (case OpenAI OPENAI_API_KEY environ_key of
             Inl e \<Rightarrow> Inl e
           | Inr client \<Rightarrow> Inr (OPENAI_API_KEY, client))))"

text \<open>
  The program on one request: the module is imported, and \<open>index\<close> serves the request
  with the key the import left; when the import raises, nothing is served.
\<close>

definition serve ::
  "(api_request \<Rightarrow> exn + chat_completion) \<Rightarrow> str option \<Rightarrow> flask_request \<Rightarrow> exn + outcome"
where
  "serve create environ_key request =
     (case snd (module_import environ_key) of
        Inl e \<Rightarrow> Inl e
      | Inr (OPENAI_API_KEY, client) \<Rightarrow> Inr (index create OPENAI_API_KEY request))"

section \<open>Strings: splitting, joining and trimming\<close>

lemma str_split_nonempty: "str_split sep s \<noteq> []"
  by (induction s) (auto split: list.splits)

lemma str_join_Cons_Cons: "str_join sep ((c # x) # xs) = c # str_join sep (x # xs)"
  by (cases xs) simp_all

lemma str_join_split: "str_join [sep] (str_split sep s) = s"
proof (induction s)
  case Nil
  then show ?case by simp
next
  case (Cons c cs)
  obtain seg segs where sp: "str_split sep cs = seg # segs"
    using str_split_nonempty [of sep cs] by (cases "str_split sep cs") auto
  show ?case
    using Cons sp by (simp add: str_join_Cons_Cons)
qed

lemma str_split_no_sep: "seg \<in> set (str_split sep s) \<Longrightarrow> sep \<notin> set seg"
  by (induction s arbitrary: seg) (auto split: list.splits if_splits)

lemma str_split_join:
  "segs \<noteq> [] \<Longrightarrow> \<forall>seg\<in>set segs. sep \<notin> set seg \<Longrightarrow> str_split sep (str_join [sep] segs) = segs"
proof (induction "[sep]" segs rule: str_join.induct)
  case (1)
  then show ?case by simp
next
  case (2 x)
  then show ?case by (induction x) auto
next
  case (3 x y ys)
  then have ih: "str_split sep (str_join [sep] (y # ys)) = y # ys" by simp
  from 3 have "sep \<notin> set x" by simp
  then show ?case using ih
    by (induction x) auto
qed

lemma str_strip_Nil_iff: "str_strip s = [] \<longleftrightarrow> (\<forall>c\<in>set s. isspace c)"
proof -
  have "str_strip s = [] \<longleftrightarrow> (\<forall>x\<in>set (dropWhile isspace s). isspace x)"
    unfolding str_strip_def by (simp only: rev_is_Nil_conv dropWhile_eq_Nil_conv set_rev)
  also have "\<dots> \<longleftrightarrow> dropWhile isspace s = []"
    using hd_dropWhile [of isspace s]
    by (cases "dropWhile isspace s") (auto dest: set_dropWhileD)
  also have "\<dots> \<longleftrightarrow> (\<forall>c\<in>set s. isspace c)"
    by (simp add: dropWhile_eq_Nil_conv)
  finally show ?thesis .
qed

lemma str_strip_decomp:
  "s = takeWhile isspace s @ str_strip s @ rev (takeWhile isspace (rev (dropWhile isspace s)))"
proof -
  let ?d = "dropWhile isspace s"
  have "rev ?d = takeWhile isspace (rev ?d) @ dropWhile isspace (rev ?d)" by simp
  then have "?d = rev (dropWhile isspace (rev ?d)) @ rev (takeWhile isspace (rev ?d))"
    by (metis rev_append rev_rev_ident)
  then have "?d = str_strip s @ rev (takeWhile isspace (rev ?d))"
    by (simp add: str_strip_def)
  moreover have "s = takeWhile isspace s @ ?d" by simp
  ultimately show ?thesis by metis
qed

lemma str_strip_ends:
  assumes "str_strip s \<noteq> []"
  shows "\<not> isspace (hd (str_strip s))" and "\<not> isspace (last (str_strip s))"
proof -
  let ?d = "dropWhile isspace s"
  let ?r = "dropWhile isspace (rev ?d)"
  have k: "str_strip s = rev ?r" by (simp add: str_strip_def)
  with assms have rne: "?r \<noteq> []" by simp
  then have "\<not> isspace (hd ?r)" by (rule hd_dropWhile)
  then show "\<not> isspace (last (str_strip s))"
    using rne by (simp add: k last_rev)
  have dne: "?d \<noteq> []"
    using rne by (metis dropWhile.simps(1) rev.simps(1))
  then have hd: "\<not> isspace (hd ?d)" by (rule hd_dropWhile)
  have "?d = str_strip s @ rev (takeWhile isspace (rev ?d))"
    using str_strip_decomp [of s] by (metis takeWhile_dropWhile_id same_append_eq)
  then have "hd ?d = hd (str_strip s)" using assms by (metis hd_append2)
  then show "\<not> isspace (hd (str_strip s))" using hd by simp
qed

lemma str_strip_idem: "str_strip (str_strip s) = str_strip s"
proof (cases "str_strip s = []")
  case True
  have "str_strip [] = []" by (simp add: str_strip_def)
  with True show ?thesis by simp
next
  case False
  let ?k = "str_strip s"
  from str_strip_ends [OF False] have h: "\<not> isspace (hd ?k)" and l: "\<not> isspace (last ?k)" .
  have 1: "dropWhile isspace ?k = ?k" using False h by (cases ?k) auto
  have 2: "dropWhile isspace (rev ?k) = rev ?k" using False l
    by (cases "rev ?k") (auto simp: last_rev [symmetric] hd_rev)
  show ?thesis by (simp add: str_strip_def[of ?k] 1 2)
qed

section \<open>Keyword normalization\<close>

lemma str_split_set: "\<Union> (set ` set (str_split sep s)) = set s - {sep}"
proof (induction s)
  case Nil
  then show ?case by simp
next
  case (Cons c cs)
  obtain seg segs where sp: "str_split sep cs = seg # segs"
    using str_split_nonempty [of sep cs] by (cases "str_split sep cs") auto
  show ?case using Cons sp by auto
qed

lemma keyword_list_alt:
  "keyword_list keywords = filter (\<lambda>k. k \<noteq> []) (map str_strip (str_split comma keywords))"
  by (simp add: keyword_list_def truthy_def filter_map comp_def)

lemma keyword_list_elem:
  assumes "k \<in> set (keyword_list keywords)"
  shows "k \<noteq> []" and "\<not> (\<forall>c\<in>set k. isspace c)" and "str_strip k = k"
proof -
  from assms obtain seg where k: "k = str_strip seg" and ne: "k \<noteq> []"
    by (auto simp: keyword_list_alt)
  show "k \<noteq> []" by (rule ne)
  show "str_strip k = k" by (simp add: k str_strip_idem)
  then show "\<not> (\<forall>c\<in>set k. isspace c)"
    using ne str_strip_Nil_iff [of k] by simp
qed

lemma keyword_list_Nil_iff:
  "keyword_list keywords = [] \<longleftrightarrow> (\<forall>c\<in>set keywords. c = comma \<or> isspace c)"
proof -
  have "keyword_list keywords = [] \<longleftrightarrow>
          (\<forall>seg\<in>set (str_split comma keywords). \<forall>c\<in>set seg. isspace c)"
    by (simp add: keyword_list_alt filter_empty_conv str_strip_Nil_iff)
  also have "\<dots> \<longleftrightarrow> (\<forall>c\<in>\<Union> (set ` set (str_split comma keywords)). isspace c)"
    by blast
  also have "\<dots> \<longleftrightarrow> (\<forall>c\<in>set keywords. c = comma \<or> isspace c)"
    unfolding str_split_set by blast
  finally show ?thesis .
qed

lemma resolve_tone_eq:
  "resolve_tone tone_key = Inr (dict_get TONE_STYLES tone_key professional_style)"
  by (simp add: resolve_tone_def dict_getitem_def TONE_STYLES_def TONE_STYLES_items_def lit_def)

lemma generate_calls:
  "fst (generate_product_description create product_name keywords tone_key) =
     [chat_request system_message
        (user_message product_name (dict_get TONE_STYLES tone_key professional_style)
           (instruction (dict_get TONE_STYLES tone_key professional_style))
           (keyword_str keywords))]"
  by (simp add: generate_product_description_def resolve_tone_eq Let_def)

lemma str_strip_space: "str_strip (32 # k) = str_strip k"
  by (simp add: str_strip_def isspace_def)

lemma str_join_comma_space:
  "str_join (lit '', '') (k # ks) = str_join [comma] (k # map ((#) 32) ks)"
proof (induction ks arbitrary: k)
  case Nil
  then show ?case by simp
next
  case (Cons a ks)
  have "str_join (lit '', '') (k # a # ks) = k @ [comma, 32] @ str_join (lit '', '') (a # ks)"
    by (simp add: lit_def comma_def)
  also have "\<dots> = k @ [comma] @ str_join [comma] ((32 # a) # map ((#) 32) ks)"
    by (simp add: Cons str_join_Cons_Cons)
  finally show ?case by simp
qed

lemma keyword_list_join:
  assumes "\<forall>k\<in>set ks. k \<noteq> [] \<and> comma \<notin> set k \<and> str_strip k = k"
  shows "keyword_list (str_join (lit '', '') ks) = ks"
proof (cases ks)
  case Nil
  then show ?thesis by (simp add: keyword_list_alt str_strip_def)
next
  case (Cons k r)
  let ?segs = "k # map ((#) 32) r"
  have c32: "comma \<noteq> 32" by (simp add: comma_def)
  have "\<forall>seg\<in>set ?segs. comma \<notin> set seg"
    using assms Cons c32 by auto
  then have sp: "str_split comma (str_join [comma] ?segs) = ?segs"
    by (intro str_split_join) simp_all
  have "map str_strip ?segs = k # r"
    using assms Cons by (auto simp: str_strip_space comp_def intro: map_idI)
  moreover have "filter (\<lambda>k. k \<noteq> []) (k # r) = k # r"
    using assms Cons by (auto intro: filter_True simp del: filter.simps)
  ultimately show ?thesis
    by (simp only: keyword_list_alt Cons str_join_comma_space sp)
qed

text \<open>
  Claim C1. For every raw keyword string, the keyword list is obtained by cutting the
  string at its commas (the segments, joined by commas again, are the string, and no
  segment holds a comma), trimming each segment and dropping the empty results, in the
  order of the segments and with duplicates kept: a list of trimmed, non-empty,
  comma-free keywords joined by a comma and a space comes back unchanged. No
  element of the list is empty or made of whitespace only. The list is empty exactly
  when the string holds only commas and whitespace, and then the user message sent to
  the generation boundary reads "Keywords to incorporate naturally: None" where the
  keywords would stand.
\<close>

theorem keyword_normalization:
  "(\<exists>segs. segs \<noteq> [] \<and> str_join [comma] segs = keywords \<and>
           (\<forall>seg\<in>set segs. comma \<notin> set seg) \<and>
           keyword_list keywords = filter (\<lambda>k. k \<noteq> []) (map str_strip segs)) \<and>
   (\<forall>ks. (\<forall>k\<in>set ks. k \<noteq> [] \<and> comma \<notin> set k \<and> str_strip k = k) \<longrightarrow>
         keyword_list (str_join (lit '', '') ks) = ks) \<and>
   (\<forall>k\<in>set (keyword_list keywords).
      k \<noteq> [] \<and> \<not> (\<forall>c\<in>set k. isspace c) \<and> str_strip k = k) \<and>
   (keyword_list keywords = [] \<longleftrightarrow> (\<forall>c\<in>set keywords. c = comma \<or> isspace c)) \<and>
   (keyword_list keywords \<noteq> [] \<longrightarrow>
      keyword_str keywords = str_join (lit '', '') (keyword_list keywords)) \<and>
   (keyword_list keywords = [] \<longrightarrow>
      keyword_str keywords = lit ''None'' \<and>
      (\<exists>tone. resolve_tone tone_key = Inr tone \<and>
         fst (generate_product_description create product_name keywords tone_key) =
           [chat_request system_message
              (lit ''Product name: '' @ product_name @
               lit ''\<newline>Tone: '' @ label tone @
               lit ''\<newline>Tone Instructions: '' @ instruction tone @
               lit ''\<newline>Keywords to incorporate naturally: None\<newline>\<newline>'' @
               lit ''Write a compelling product description that:\<newline>'' @
               lit ''- Matches the tone described above\<newline>'' @
               lit ''- Naturally weaves in the keywords without sounding forced\<newline>'' @
               lit ''- Focuses on benefits, not just features\<newline>'' @
               lit ''- Speaks directly to retail customers shopping online\<newline>'')]))"
proof -
  have a: "\<exists>segs. segs \<noteq> [] \<and> str_join [comma] segs = keywords \<and>
           (\<forall>seg\<in>set segs. comma \<notin> set seg) \<and>
           keyword_list keywords = filter (\<lambda>k. k \<noteq> []) (map str_strip segs)"
    using str_split_nonempty [of comma "keywords"] str_join_split [of comma "keywords"]
      str_split_no_sep [of _ comma "keywords"] keyword_list_alt [of "keywords"]
    by blast
  have b: "\<forall>k\<in>set (keyword_list keywords).
      k \<noteq> [] \<and> \<not> (\<forall>c\<in>set k. isspace c) \<and> str_strip k = k"
    using keyword_list_elem by blast
  have c: "\<forall>ks. (\<forall>k\<in>set ks. k \<noteq> [] \<and> comma \<notin> set k \<and> str_strip k = k) \<longrightarrow>
         keyword_list (str_join (lit '', '') ks) = ks"
    using keyword_list_join by blast
  have d: "keyword_list keywords \<noteq> [] \<longrightarrow>
      keyword_str keywords = str_join (lit '', '') (keyword_list keywords)"
    by (simp add: keyword_str_def)
  have e: "keyword_list keywords = [] \<longrightarrow>
      keyword_str keywords = lit ''None'' \<and>
      (\<exists>tone. resolve_tone tone_key = Inr tone \<and>
         fst (generate_product_description create product_name keywords tone_key) =
           [chat_request system_message
              (lit ''Product name: '' @ product_name @
               lit ''\<newline>Tone: '' @ label tone @
               lit ''\<newline>Tone Instructions: '' @ instruction tone @
               lit ''\<newline>Keywords to incorporate naturally: None\<newline>\<newline>'' @
               lit ''Write a compelling product description that:\<newline>'' @
               lit ''- Matches the tone described above\<newline>'' @
               lit ''- Naturally weaves in the keywords without sounding forced\<newline>'' @
               lit ''- Focuses on benefits, not just features\<newline>'' @
               lit ''- Speaks directly to retail customers shopping online\<newline>'')])"
  proof
    assume n: "keyword_list keywords = []"
    let ?t = "dict_get TONE_STYLES tone_key professional_style"
    have k: "keyword_str keywords = lit ''None''"
      using n by (simp add: keyword_str_def)
    have "fst (generate_product_description create product_name keywords tone_key) =
           [chat_request system_message
              (lit ''Product name: '' @ product_name @
               lit ''\<newline>Tone: '' @ label ?t @
               lit ''\<newline>Tone Instructions: '' @ instruction ?t @
               lit ''\<newline>Keywords to incorporate naturally: None\<newline>\<newline>'' @
               lit ''Write a compelling product description that:\<newline>'' @
               lit ''- Matches the tone described above\<newline>'' @
               lit ''- Naturally weaves in the keywords without sounding forced\<newline>'' @
               lit ''- Focuses on benefits, not just features\<newline>'' @
               lit ''- Speaks directly to retail customers shopping online\<newline>'')]"
      unfolding generate_calls k by (simp add: user_message_def lit_def)
    with k resolve_tone_eq [of tone_key]
    show "keyword_str keywords = lit ''None'' \<and>
      (\<exists>tone. resolve_tone tone_key = Inr tone \<and>
         fst (generate_product_description create product_name keywords tone_key) =
           [chat_request system_message
              (lit ''Product name: '' @ product_name @
               lit ''\<newline>Tone: '' @ label tone @
               lit ''\<newline>Tone Instructions: '' @ instruction tone @
               lit ''\<newline>Keywords to incorporate naturally: None\<newline>\<newline>'' @
               lit ''Write a compelling product description that:\<newline>'' @
               lit ''- Matches the tone described above\<newline>'' @
               lit ''- Naturally weaves in the keywords without sounding forced\<newline>'' @
               lit ''- Focuses on benefits, not just features\<newline>'' @
               lit ''- Speaks directly to retail customers shopping online\<newline>'')])"
      by blast
  qed
  show ?thesis
    using a b c keyword_list_Nil_iff [of "keywords"] d e by blast
qed

theorem keyword_normalization_witness:
  "keyword_list (lit '' red , , blue,red ,'') = [lit ''red'', lit ''blue'', lit ''red''] \<and>
   keyword_str (lit '' red , , blue,red ,'') = lit ''red, blue, red'' \<and>
   keyword_list (lit ''red, blue, red'') = [lit ''red'', lit ''blue'', lit ''red''] \<and>
   keyword_list (lit '' , ,, '') = [] \<and>
   keyword_str (lit '' , ,, '') = lit ''None'' \<and>
   fst (generate_product_description (\<lambda>r. Inl (APIError [])) (lit ''Desk Lamp'') (lit '' , ,, '')
          (lit ''unknown_tone_xyz'')) =
     [chat_request system_message
              (lit ''Product name: '' @ lit ''Desk Lamp'' @
               lit ''\<newline>Tone: '' @ lit ''Professional'' @
               lit ''\<newline>Tone Instructions: '' @ instruction professional_style @
               lit ''\<newline>Keywords to incorporate naturally: None\<newline>\<newline>'' @
               lit ''Write a compelling product description that:\<newline>'' @
               lit ''- Matches the tone described above\<newline>'' @
               lit ''- Naturally weaves in the keywords without sounding forced\<newline>'' @
               lit ''- Focuses on benefits, not just features\<newline>'' @
               lit ''- Speaks directly to retail customers shopping online\<newline>'')]"
proof -
  let ?A = "lit '' red , , blue,red ,''"
  let ?B = "lit '' , ,, ''"
  let ?ks = "[lit ''red'', lit ''blue'', lit ''red'']"
  have 1: "keyword_list ?A = ?ks"
    by (simp add: keyword_list_def lit_def str_strip_def isspace_def comma_def truthy_def)
  have 2: "\<forall>c\<in>set ?B. c = comma \<or> isspace c"
    by (simp add: lit_def isspace_def comma_def)
  have 3: "resolve_tone (lit ''unknown_tone_xyz'') = Inr professional_style"
    by (simp add: resolve_tone_def dict_getitem_def dict_get_def TONE_STYLES_def
          TONE_STYLES_items_def lit_def)
  have 4: "str_join (lit '', '') ?ks = lit ''red, blue, red''"
    by (simp add: lit_def)
  have 5: "\<forall>k\<in>set ?ks. k \<noteq> [] \<and> comma \<notin> set k \<and> str_strip k = k"
    by (simp add: lit_def str_strip_def isspace_def comma_def)
  note A = keyword_normalization [of ?A]
  note B = keyword_normalization [of ?B "lit ''unknown_tone_xyz''" "\<lambda>r. Inl (APIError [])"
      "lit ''Desk Lamp''"]
  have ne: "keyword_list ?A \<noteq> []"
    unfolding 1 by (rule list.distinct)
  have s: "keyword_str ?A = str_join (lit '', '') (keyword_list ?A)"
    using A [THEN conjunct2, THEN conjunct2, THEN conjunct2, THEN conjunct2, THEN conjunct1] ne
    by (rule mp)
  have j: "keyword_list (str_join (lit '', '') ?ks) = ?ks"
    using A [THEN conjunct2, THEN conjunct1, THEN spec, of ?ks] 5 by (rule mp)
  have e: "keyword_list ?B = []"
    using B [THEN conjunct2, THEN conjunct2, THEN conjunct2, THEN conjunct1] 2 by (rule iffD2)
  note E = B [THEN conjunct2, THEN conjunct2, THEN conjunct2, THEN conjunct2, THEN conjunct2,
      THEN mp, OF e]
  have n: "keyword_str ?B = lit ''None''"
    by (rule E [THEN conjunct1])
  from E [THEN conjunct2] obtain tone where
    t: "resolve_tone (lit ''unknown_tone_xyz'') = Inr tone" and
    g: "fst (generate_product_description (\<lambda>r. Inl (APIError [])) (lit ''Desk Lamp'') ?B
             (lit ''unknown_tone_xyz'')) =
        [chat_request system_message
              (lit ''Product name: '' @ lit ''Desk Lamp'' @
               lit ''\<newline>Tone: '' @ label tone @
               lit ''\<newline>Tone Instructions: '' @ instruction tone @
               lit ''\<newline>Keywords to incorporate naturally: None\<newline>\<newline>'' @
               lit ''Write a compelling product description that:\<newline>'' @
               lit ''- Matches the tone described above\<newline>'' @
               lit ''- Naturally weaves in the keywords without sounding forced\<newline>'' @
               lit ''- Focuses on benefits, not just features\<newline>'' @
               lit ''- Speaks directly to retail customers shopping online\<newline>'')]"
    by (elim exE conjE)
  from t have tp: "tone = professional_style"
    unfolding 3 by (simp only: sum.inject)
  have s': "keyword_str ?A = lit ''red, blue, red''"
    using s unfolding 1 4 .
  have j': "keyword_list (lit ''red, blue, red'') = ?ks"
    using j unfolding 4 .
  have l: "label professional_style = lit ''Professional''"
    by (simp add: professional_style_def)
  show ?thesis
    using 1 s' j' e n g [unfolded tp l] by (intro conjI)
qed

section \<open>The tone registry\<close>

lemma TONE_STYLES_dom:
  "dom TONE_STYLES =
     {lit ''casual'', lit ''professional'', lit ''enthusiastic'', lit ''technical'', lit ''luxury''}"
  by (auto simp: TONE_STYLES_def TONE_STYLES_items_def lit_def split: if_splits)

lemma TONE_STYLES_ran:
  "ran TONE_STYLES =
     {casual_style, professional_style, enthusiastic_style, technical_style, luxury_style}"
  unfolding TONE_STYLES_def
  by (subst ran_distinct) (auto simp: TONE_STYLES_items_def lit_def)

lemma TONE_STYLES_professional: "TONE_STYLES (lit ''professional'') = Some professional_style"
  by (simp add: TONE_STYLES_def TONE_STYLES_items_def lit_def)

lemma style_nonempty:
  "label casual_style \<noteq> [] \<and> instruction casual_style \<noteq> []"
  "label professional_style \<noteq> [] \<and> instruction professional_style \<noteq> []"
  "label enthusiastic_style \<noteq> [] \<and> instruction enthusiastic_style \<noteq> []"
  "label technical_style \<noteq> [] \<and> instruction technical_style \<noteq> []"
  "label luxury_style \<noteq> [] \<and> instruction luxury_style \<noteq> []"
  by (simp_all add: casual_style_def professional_style_def enthusiastic_style_def
        technical_style_def luxury_style_def lit_def)

text \<open>
  Claim C2. Tone lookup is total with a default: for every tone identifier, the unknown
  ones and the empty string included, resolution raises nothing and returns a definition
  of the fixed registry, whose keys are casual, professional, enthusiastic, technical and
  luxury, with a non-empty label and instruction; a key of the registry gets its own
  definition and every other identifier gets the professional one. The lookup is a
  function of the identifier alone, so it has no effect.
\<close>

theorem tone_lookup_total:
  "\<exists>t. resolve_tone tone_key = Inr t \<and>
       t \<in> ran TONE_STYLES \<and>
       ran TONE_STYLES =
         {casual_style, professional_style, enthusiastic_style, technical_style, luxury_style} \<and>
       dom TONE_STYLES =
         {lit ''casual'', lit ''professional'', lit ''enthusiastic'', lit ''technical'',
          lit ''luxury''} \<and>
       label t \<noteq> [] \<and> instruction t \<noteq> [] \<and>
       (tone_key \<in> dom TONE_STYLES \<longrightarrow> TONE_STYLES tone_key = Some t) \<and>
       (tone_key \<notin> dom TONE_STYLES \<longrightarrow> t = professional_style)"
proof -
  let ?t = "dict_get TONE_STYLES tone_key professional_style"
  have m: "?t \<in> ran TONE_STYLES"
    using TONE_STYLES_professional
    by (auto simp: dict_get_def ran_def split: option.splits)
  have v: "label ?t \<noteq> [] \<and> instruction ?t \<noteq> []"
    using m style_nonempty unfolding TONE_STYLES_ran by auto
  have k: "tone_key \<in> dom TONE_STYLES \<longrightarrow> TONE_STYLES tone_key = Some ?t"
    by (auto simp: dict_get_def)
  have d: "tone_key \<notin> dom TONE_STYLES \<longrightarrow> ?t = professional_style"
    by (auto simp: dict_get_def dom_def)
  show ?thesis
    using resolve_tone_eq [of tone_key] m TONE_STYLES_ran TONE_STYLES_dom v k d by blast
qed

theorem tone_lookup_total_witness:
  "resolve_tone (lit ''unknown_tone_xyz'') = Inr professional_style \<and>
   resolve_tone [] = Inr professional_style \<and>
   resolve_tone (lit ''luxury'') = Inr luxury_style"
proof -
  have a: "lit ''unknown_tone_xyz'' \<notin> dom TONE_STYLES" "[] \<notin> dom TONE_STYLES"
    "lit ''luxury'' \<in> dom TONE_STYLES" "TONE_STYLES (lit ''luxury'') = Some luxury_style"
    by (simp_all add: TONE_STYLES_def TONE_STYLES_items_def lit_def dom_def)
  show ?thesis
    using tone_lookup_total [of "lit ''unknown_tone_xyz''"] tone_lookup_total [of "[]"]
      tone_lookup_total [of "lit ''luxury''"] a
    by auto
qed

section \<open>Prompt composition\<close>

lemma keyword_str_scenario:
  "keyword_str (lit ''noise cancelling, 20h battery'') = lit ''noise cancelling, 20h battery''"
  by (simp add: keyword_str_def keyword_list_def lit_def str_strip_def isspace_def comma_def
        truthy_def)

lemma resolve_enthusiastic: "resolve_tone (lit ''enthusiastic'') = Inr enthusiastic_style"
  by (simp add: resolve_tone_def dict_getitem_def dict_get_def TONE_STYLES_def
        TONE_STYLES_items_def lit_def)

text \<open>
  Claim C4. For every product name, keyword string and tone identifier, the user message
  sent to the generation boundary is, in this order: the product name, the label of the
  resolved tone, its instruction text, the normalized keyword string (or None), and the
  four fixed directives (match the tone, weave the keywords in naturally, benefits over
  features, speak to online retail shoppers). For the product Wireless Earbuds, the
  keywords "noise cancelling, 20h battery" and the tone enthusiastic, the message holds
  "Wireless Earbuds", "Enthusiastic", the enthusiastic instruction text and
  "noise cancelling, 20h battery" verbatim, in that order.
\<close>

theorem user_message_field_order:
  "(\<exists>tone. resolve_tone tone_key = Inr tone \<and>
      fst (generate_product_description create product_name keywords tone_key) =
        [chat_request system_message
           (lit ''Product name: '' @ product_name @
            lit ''\<newline>Tone: '' @ label tone @
            lit ''\<newline>Tone Instructions: '' @ instruction tone @
            lit ''\<newline>Keywords to incorporate naturally: '' @ keyword_str keywords @
            lit ''\<newline>\<newline>Write a compelling product description that:\<newline>'' @
            lit ''- Matches the tone described above\<newline>'' @
            lit ''- Naturally weaves in the keywords without sounding forced\<newline>'' @
            lit ''- Focuses on benefits, not just features\<newline>'' @
            lit ''- Speaks directly to retail customers shopping online\<newline>'')]) \<and>
   fst (generate_product_description create (lit ''Wireless Earbuds'')
          (lit ''noise cancelling, 20h battery'') (lit ''enthusiastic'')) =
     [chat_request system_message
        (lit ''Product name: '' @ lit ''Wireless Earbuds'' @
         lit ''\<newline>Tone: '' @ lit ''Enthusiastic'' @
         lit ''\<newline>Tone Instructions: '' @ instruction enthusiastic_style @
         lit ''\<newline>Keywords to incorporate naturally: '' @ lit ''noise cancelling, 20h battery'' @
         lit ''\<newline>\<newline>Write a compelling product description that:\<newline>'' @
         lit ''- Matches the tone described above\<newline>'' @
         lit ''- Naturally weaves in the keywords without sounding forced\<newline>'' @
         lit ''- Focuses on benefits, not just features\<newline>'' @
         lit ''- Speaks directly to retail customers shopping online\<newline>'')] \<and>
   instruction enthusiastic_style =
     lit ''Write in an energetic and upbeat tone that builds excitement. Use strong, positive language that makes the product feel irresistible.''"
proof -
  have g: "\<And>pn kw tk tone. resolve_tone tk = Inr tone \<Longrightarrow>
      fst (generate_product_description create pn kw tk) =
        [chat_request system_message
           (lit ''Product name: '' @ pn @
            lit ''\<newline>Tone: '' @ label tone @
            lit ''\<newline>Tone Instructions: '' @ instruction tone @
            lit ''\<newline>Keywords to incorporate naturally: '' @ keyword_str kw @
            lit ''\<newline>\<newline>Write a compelling product description that:\<newline>'' @
            lit ''- Matches the tone described above\<newline>'' @
            lit ''- Naturally weaves in the keywords without sounding forced\<newline>'' @
            lit ''- Focuses on benefits, not just features\<newline>'' @
            lit ''- Speaks directly to retail customers shopping online\<newline>'')]"
    by (simp add: generate_product_description_def Let_def user_message_def lit_def)
  have 1: "\<exists>tone. resolve_tone tone_key = Inr tone \<and>
      fst (generate_product_description create product_name keywords tone_key) =
        [chat_request system_message
           (lit ''Product name: '' @ product_name @
            lit ''\<newline>Tone: '' @ label tone @
            lit ''\<newline>Tone Instructions: '' @ instruction tone @
            lit ''\<newline>Keywords to incorporate naturally: '' @ keyword_str keywords @
            lit ''\<newline>\<newline>Write a compelling product description that:\<newline>'' @
            lit ''- Matches the tone described above\<newline>'' @
            lit ''- Naturally weaves in the keywords without sounding forced\<newline>'' @
            lit ''- Focuses on benefits, not just features\<newline>'' @
            lit ''- Speaks directly to retail customers shopping online\<newline>'')]"
    using g [OF resolve_tone_eq] resolve_tone_eq by blast
  have l: "label enthusiastic_style = lit ''Enthusiastic''"
    by (simp add: enthusiastic_style_def)
  have 2: "fst (generate_product_description create (lit ''Wireless Earbuds'')
          (lit ''noise cancelling, 20h battery'') (lit ''enthusiastic'')) =
     [chat_request system_message
        (lit ''Product name: '' @ lit ''Wireless Earbuds'' @
         lit ''\<newline>Tone: '' @ lit ''Enthusiastic'' @
         lit ''\<newline>Tone Instructions: '' @ instruction enthusiastic_style @
         lit ''\<newline>Keywords to incorporate naturally: '' @ lit ''noise cancelling, 20h battery'' @
         lit ''\<newline>\<newline>Write a compelling product description that:\<newline>'' @
         lit ''- Matches the tone described above\<newline>'' @
         lit ''- Naturally weaves in the keywords without sounding forced\<newline>'' @
         lit ''- Focuses on benefits, not just features\<newline>'' @
         lit ''- Speaks directly to retail customers shopping online\<newline>'')]"
    using g [OF resolve_enthusiastic, of "lit ''Wireless Earbuds''" "lit ''noise cancelling, 20h battery''"]
    unfolding keyword_str_scenario l .
  have 3: "instruction enthusiastic_style =
     lit ''Write in an energetic and upbeat tone that builds excitement. Use strong, positive language that makes the product feel irresistible.''"
    by (simp add: enthusiastic_style_def lit_def)
  show ?thesis
    using 1 2 3 by (intro conjI)
qed

lemma generate_keyword_str_cong:
  "keyword_str kw = keyword_str kw' \<Longrightarrow>
   generate_product_description create pn kw tk = generate_product_description create pn kw' tk"
  by (simp add: generate_product_description_def resolve_tone_eq Let_def)

lemma keyword_str_None_lit: "keyword_str (lit ''None'') = lit ''None''"
  by (simp add: keyword_str_def keyword_list_def lit_def str_strip_def isspace_def comma_def
        truthy_def)

lemma keyword_str_blank:
  "\<forall>c\<in>set kw. c = comma \<or> isspace c \<Longrightarrow> keyword_str kw = lit ''None''"
  by (simp add: keyword_str_def keyword_list_Nil_iff)

text \<open>
  Claim C10. The keyword input "None" cannot be told from an empty keyword list: for every
  product name and tone identifier, composing the prompt for the keywords "None" and for
  the empty string, or for any string of commas and whitespace only, sends the same
  system and user messages (and so gives the same result), since the placeholder of the
  empty list is the same string "None".
\<close>

theorem none_keyword_indistinguishable:
  "generate_product_description create product_name (lit ''None'') tone_key =
     generate_product_description create product_name [] tone_key \<and>
   ((\<forall>c\<in>set keywords. c = comma \<or> isspace c) \<longrightarrow>
      keyword_str keywords = keyword_str (lit ''None'') \<and>
      fst (generate_product_description create product_name (lit ''None'') tone_key) =
        fst (generate_product_description create product_name keywords tone_key) \<and>
      generate_product_description create product_name (lit ''None'') tone_key =
        generate_product_description create product_name keywords tone_key)"
proof -
  have e: "keyword_str (lit ''None'') = keyword_str []"
    using keyword_str_blank [of "[]"] by (simp add: keyword_str_None_lit)
  have "generate_product_description create product_name (lit ''None'') tone_key =
          generate_product_description create product_name keywords tone_key"
    if "\<forall>c\<in>set keywords. c = comma \<or> isspace c"
    using keyword_str_blank [OF that]
    by (intro generate_keyword_str_cong) (simp add: keyword_str_None_lit)
  then show ?thesis
    using generate_keyword_str_cong [OF e] keyword_str_blank [of "keywords"]
    by (simp add: keyword_str_None_lit)
qed

theorem none_keyword_indistinguishable_witness:
  "fst (generate_product_description (\<lambda>r. Inl (APIError [])) (lit ''Desk Lamp'') (lit ''None'')
          (lit ''luxury'')) =
   fst (generate_product_description (\<lambda>r. Inl (APIError [])) (lit ''Desk Lamp'') (lit '' ,, , '')
          (lit ''luxury''))"
proof -
  have h: "\<forall>c\<in>set (lit '' ,, , ''). c = comma \<or> isspace c"
    by (simp add: lit_def comma_def isspace_def)
  show ?thesis
    using none_keyword_indistinguishable [of "\<lambda>r. Inl (APIError [])" "lit ''Desk Lamp''"
        "lit ''luxury''" "lit '' ,, , ''", THEN conjunct2, THEN mp, OF h]
    by (elim conjE)
qed

section \<open>Response extraction\<close>

lemma str_strip_trimmed:
  "\<exists>a b. text = a @ str_strip text @ b \<and> (\<forall>x\<in>set a. isspace x) \<and> (\<forall>x\<in>set b. isspace x)"
proof -
  let ?a = "takeWhile isspace text"
  let ?b = "rev (takeWhile isspace (rev (dropWhile isspace text)))"
  have "text = ?a @ str_strip text @ ?b" by (rule str_strip_decomp)
  moreover have "\<forall>x\<in>set ?a. isspace x" by (auto dest: set_takeWhileD)
  moreover have "\<forall>x\<in>set ?b. isspace x" by (auto dest: set_takeWhileD)
  ultimately show ?thesis by blast
qed

lemma generate_result:
  "snd (generate_product_description create pn kw tk) =
     (case create (hd (fst (generate_product_description create pn kw tk))) of
        Inl e \<Rightarrow> Inl e
      | Inr response \<Rightarrow>
          (case choices response of
             [] \<Rightarrow> Inl IndexError
           | c # rest \<Rightarrow>
               (case content (message c) of
                  None \<Rightarrow> Inl AttributeError
                | Some text \<Rightarrow> Inr (str_strip text))))"
  by (simp add: generate_product_description_def resolve_tone_eq Let_def)

text \<open>
  Claim C9 says that for every response whose candidate list is not empty the helper
  returns the trimmed text of the first candidate. It does not when that candidate has
  no text: the content is \<open>None\<close>, \<open>strip\<close> on it raises \<open>AttributeError\<close>, and nothing is
  returned.
\<close>

theorem first_candidate_without_text_counterexample:
  "choices \<lparr>choices = [\<lparr>message = \<lparr>content = None\<rparr>\<rparr>]\<rparr> \<noteq> [] \<and>
   snd (generate_product_description
          (\<lambda>r. Inr \<lparr>choices = [\<lparr>message = \<lparr>content = None\<rparr>\<rparr>]\<rparr>)
          (lit ''Desk Lamp'') [] (lit ''casual'')) = Inl AttributeError"
  by (simp add: generate_result)

text \<open>
  Claim C9, amended. For every response of the generation boundary whose candidate list
  is not empty and whose first candidate has text content,
  \<open>generate_product_description\<close> returns that text with its leading and trailing
  whitespace removed: what is cut off at both ends is whitespace only and what is left
  neither starts nor ends with whitespace. The other candidates are not read: the result
  is the same whatever they are.
\<close>

theorem first_candidate_extracted:
  "\<exists>req. fst (generate_product_description create product_name keywords tone_key) = [req] \<and>
     (\<forall>response c rest text.
        create req = Inr response \<longrightarrow> choices response = c # rest \<longrightarrow>
        content (message c) = Some text \<longrightarrow>
          snd (generate_product_description create product_name keywords tone_key) =
            Inr (str_strip text) \<and>
          (\<exists>a b. text = a @ str_strip text @ b \<and>
                 (\<forall>x\<in>set a. isspace x) \<and> (\<forall>x\<in>set b. isspace x)) \<and>
          (str_strip text \<noteq> [] \<longrightarrow>
             \<not> isspace (hd (str_strip text)) \<and> \<not> isspace (last (str_strip text))))"
proof -
  let ?g = "generate_product_description create product_name keywords tone_key"
  obtain req where r: "fst ?g = [req]"
    using generate_calls by blast
  have "snd ?g = Inr (str_strip t)"
    if "create req = Inr response" "choices response = c # rest" "content (message c) = Some t"
    for response c rest t
    using that r by (simp add: generate_result)
  then show ?thesis
    using r str_strip_trimmed str_strip_ends by blast
qed

theorem first_candidate_extracted_witness:
  "snd (generate_product_description
          (\<lambda>r. Inr \<lparr>choices =
             [\<lparr>message = \<lparr>content = Some (lit ''  A bright lamp. \<newline>'')\<rparr>\<rparr>,
              \<lparr>message = \<lparr>content = Some (lit ''second'')\<rparr>\<rparr>]\<rparr>)
          (lit ''Desk Lamp'') [] (lit ''casual'')) = Inr (lit ''A bright lamp.'')"
proof -
  let ?create = "\<lambda>r::api_request. Inr \<lparr>choices =
             [\<lparr>message = \<lparr>content = Some (lit ''  A bright lamp. \<newline>'')\<rparr>\<rparr>,
              \<lparr>message = \<lparr>content = Some (lit ''second'')\<rparr>\<rparr>]\<rparr> :: exn + chat_completion"
  have s: "str_strip (lit ''  A bright lamp. \<newline>'') = lit ''A bright lamp.''"
    by (simp add: str_strip_def lit_def isspace_def)
  from first_candidate_extracted [of ?create "lit ''Desk Lamp''" "[]" "lit ''casual''"]
  obtain req where
    h: "\<forall>response c rest text.
        ?create req = Inr response \<longrightarrow> choices response = c # rest \<longrightarrow>
        content (message c) = Some text \<longrightarrow>
          snd (generate_product_description ?create (lit ''Desk Lamp'') [] (lit ''casual'')) =
            Inr (str_strip text) \<and>
          (\<exists>a b. text = a @ str_strip text @ b \<and>
                 (\<forall>x\<in>set a. isspace x) \<and> (\<forall>x\<in>set b. isspace x)) \<and>
          (str_strip text \<noteq> [] \<longrightarrow>
             \<not> isspace (hd (str_strip text)) \<and> \<not> isspace (last (str_strip text)))"
    by (elim exE conjE)
  have "snd (generate_product_description ?create (lit ''Desk Lamp'') [] (lit ''casual'')) =
            Inr (str_strip (lit ''  A bright lamp. \<newline>''))"
    using h [THEN spec, THEN spec, THEN spec, THEN spec, THEN mp, THEN mp, THEN mp,
        THEN conjunct1, OF refl]
    by simp
  then show ?thesis
    unfolding s .
qed

section \<open>The route: validation, configuration and failure\<close>

lemma index_other_method:
  "method request \<noteq> lit ''POST'' \<Longrightarrow>
   index create key request =
     \<lparr> rendered = render_template None [] [] (lit ''professional''),
       flashed = [], logged = [], api_calls = [] \<rparr>"
  by (simp add: index_def)

lemma index_empty_name:
  "method request = lit ''POST'' \<Longrightarrow>
   str_strip (dict_get (form request) (lit ''product_name'') []) = [] \<Longrightarrow>
   index create key request =
     \<lparr> rendered = render_template None []
                    (str_strip (dict_get (form request) (lit ''keywords'') []))
                    (dict_get (form request) (lit ''tone'') (lit ''professional'')),
       flashed = [(lit ''Please enter a product name.'', lit ''warning'')],
       logged = [], api_calls = [] \<rparr>"
  by (simp add: index_def truthy_def Let_def)

lemma index_key_missing:
  "method request = lit ''POST'' \<Longrightarrow>
   str_strip (dict_get (form request) (lit ''product_name'') []) \<noteq> [] \<Longrightarrow>
   key_missing key \<Longrightarrow>
   index create key request =
     \<lparr> rendered = render_template None
                    (str_strip (dict_get (form request) (lit ''product_name'') []))
                    (str_strip (dict_get (form request) (lit ''keywords'') []))
                    (dict_get (form request) (lit ''tone'') (lit ''professional'')),
       flashed =
         [(lit ''OpenAI API key is not configured. Please set OPENAI_API_KEY and restart the app.'',
           lit ''danger'')],
       logged = [], api_calls = [] \<rparr>"
  by (simp add: index_def truthy_def Let_def)

lemma index_generate:
  "method request = lit ''POST'' \<Longrightarrow>
   str_strip (dict_get (form request) (lit ''product_name'') []) \<noteq> [] \<Longrightarrow>
   \<not> key_missing key \<Longrightarrow>
   index create key request =
     (case generate_product_description create
             (str_strip (dict_get (form request) (lit ''product_name'') []))
             (str_strip (dict_get (form request) (lit ''keywords'') []))
             (dict_get (form request) (lit ''tone'') (lit ''professional'')) of
        (calls, Inr text) \<Rightarrow>
          \<lparr> rendered = render_template (Some text)
                    (str_strip (dict_get (form request) (lit ''product_name'') []))
                    (str_strip (dict_get (form request) (lit ''keywords'') []))
                    (dict_get (form request) (lit ''tone'') (lit ''professional'')),
            flashed = [], logged = [], api_calls = calls \<rparr>
      | (calls, Inl e) \<Rightarrow>
          \<lparr> rendered = render_template None
                    (str_strip (dict_get (form request) (lit ''product_name'') []))
                    (str_strip (dict_get (form request) (lit ''keywords'') []))
                    (dict_get (form request) (lit ''tone'') (lit ''professional'')),
            flashed =
              [(lit ''Sorry, something went wrong while generating the description. '' @
                lit ''Please try again.'', lit ''danger'')],
            logged = [LogException (lit ''Error while generating product description: %s'') e],
            api_calls = calls \<rparr>)"
  by (simp add: index_def truthy_def Let_def)

lemma generate_calls_nonempty:
  "fst (generate_product_description create a b c) \<noteq> []"
  by (simp add: generate_calls)

text \<open>
  Claim C5. For every form submission whose product name is empty or made of whitespace
  only (a missing field included), \<open>index\<close> does not call
  \<open>generate_product_description\<close>: no request reaches the external boundary (a call of
  the helper always sends one), the page is the same whatever the boundary would answer,
  no text is generated, and the message flashed asks for a product name.
\<close>

theorem empty_product_name_rejected:
  assumes "method request = lit ''POST''"
    and "\<forall>c\<in>set (dict_get (form request) (lit ''product_name'') []). isspace c"
  shows "api_calls (index create key request) = [] \<and>
         flashed (index create key request) =
           [(lit ''Please enter a product name.'', lit ''warning'')] \<and>
         generated_text (rendered (index create key request)) = None \<and>
         logged (index create key request) = [] \<and>
         index create key request = index create' key request \<and>
         fst (generate_product_description create a b c) \<noteq> []"
proof -
  have e: "str_strip (dict_get (form request) (lit ''product_name'') []) = []"
    using assms(2) by (simp add: str_strip_Nil_iff)
  show ?thesis
    by (simp add: index_empty_name [OF assms(1) e] render_template_def generate_calls_nonempty)
qed

theorem empty_product_name_rejected_witness:
  "api_calls (index (\<lambda>r. Inr \<lparr>choices = []\<rparr>) (Some (lit ''sk-test''))
     \<lparr>method = lit ''POST'',
      form = [lit ''product_name'' \<mapsto> lit ''  '', lit ''keywords'' \<mapsto> lit ''oak'']\<rparr>) = [] \<and>
   flashed (index (\<lambda>r. Inr \<lparr>choices = []\<rparr>) (Some (lit ''sk-test''))
     \<lparr>method = lit ''POST'',
      form = [lit ''product_name'' \<mapsto> lit ''  '', lit ''keywords'' \<mapsto> lit ''oak'']\<rparr>) =
     [(lit ''Please enter a product name.'', lit ''warning'')]"
proof -
  let ?rq = "\<lparr>method = lit ''POST'',
      form = [lit ''product_name'' \<mapsto> lit ''  '', lit ''keywords'' \<mapsto> lit ''oak'']\<rparr>"
  have m: "method ?rq = lit ''POST''"
    by simp
  have w: "\<forall>c\<in>set (dict_get (form ?rq) (lit ''product_name'') []). isspace c"
    by (simp add: dict_get_def lit_def isspace_def)
  note T = empty_product_name_rejected [OF m w, of "\<lambda>r. Inr \<lparr>choices = []\<rparr>"
      "Some (lit ''sk-test'')"]
  show ?thesis
    using T [THEN conjunct1] T [THEN conjunct2, THEN conjunct1] by (intro conjI)
qed

text \<open>
  What \<open>index\<close> does once the module is imported with a missing key: no request reaches
  the external boundary, no text is generated, and a submission with a product name
  gets the message about the configuration.
\<close>

lemma index_missing_credential:
  assumes "key_missing key"
  shows "key_missing None \<and> key_missing (Some []) \<and>
         api_calls (index create key request) = [] \<and>
         generated_text (rendered (index create key request)) = None \<and>
         logged (index create key request) = [] \<and>
         index create key request = index create' key request \<and>
         (method request = lit ''POST'' \<longrightarrow>
          str_strip (dict_get (form request) (lit ''product_name'') []) \<noteq> [] \<longrightarrow>
            flashed (index create key request) =
              [(lit ''OpenAI API key is not configured. Please set OPENAI_API_KEY and restart the app.'',
                lit ''danger'')])"
proof -
  have k: "key_missing None \<and> key_missing (Some [])"
    by (simp add: key_missing_def truthy_def)
  consider (other) "method request \<noteq> lit ''POST''"
    | (noname) "method request = lit ''POST''"
        "str_strip (dict_get (form request) (lit ''product_name'') []) = []"
    | (nokey) "method request = lit ''POST''"
        "str_strip (dict_get (form request) (lit ''product_name'') []) \<noteq> []"
    by blast
  then show ?thesis
  proof cases
    case other
    then show ?thesis
      using k by (simp add: index_other_method render_template_def)
  next
    case noname
    then show ?thesis
      using k by (simp add: index_empty_name render_template_def)
  next
    case nokey
    then show ?thesis
      using k by (simp add: index_key_missing [OF nokey assms] render_template_def)
  qed
qed

text \<open>
  Claim C6. When the API credential is absent, the condition is to be detected before
  any generation and answered with the message about the configuration. The code does
  so only for a credential set to the empty string. With the variable unset, the
  warning of line 24 is logged and then line 26 raises \<open>OpenAIError\<close> while the module
  is imported: no request is served, by \<open>index\<close> or otherwise, and no message about the
  configuration is shown, although the comment of lines 23 and 24 says that the app
  will run.
\<close>

theorem missing_credential_raises_at_import:
  "module_import None =
     ([LogWarning (lit ''OPENAI_API_KEY is not set. The app will run, but API calls will fail.'')],
      Inl OpenAIError) \<and>
   serve create None request = Inl OpenAIError \<and>
   serve create None
     \<lparr>method = lit ''POST'', form = [lit ''product_name'' \<mapsto> lit ''Desk Lamp'']\<rparr> =
     Inl OpenAIError \<and>
   serve create (Some []) request = Inr (index create (Some []) request)"
  by (simp add: serve_def module_import_def OpenAI_def key_missing_def truthy_def)

lemma index_generate_fields:
  assumes "method request = lit ''POST''"
    and "str_strip (dict_get (form request) (lit ''product_name'') []) \<noteq> []"
    and "\<not> key_missing key"
  shows "api_calls (index create key request) =
           fst (generate_product_description create
                  (str_strip (dict_get (form request) (lit ''product_name'') []))
                  (str_strip (dict_get (form request) (lit ''keywords'') []))
                  (dict_get (form request) (lit ''tone'') (lit ''professional'')))"
    and "ctx_product_name (rendered (index create key request)) =
           str_strip (dict_get (form request) (lit ''product_name'') [])"
    and "ctx_keywords (rendered (index create key request)) =
           str_strip (dict_get (form request) (lit ''keywords'') [])"
    and "selected_tone (rendered (index create key request)) =
           dict_get (form request) (lit ''tone'') (lit ''professional'')"
proof -
  obtain calls res where g: "generate_product_description create
                  (str_strip (dict_get (form request) (lit ''product_name'') []))
                  (str_strip (dict_get (form request) (lit ''keywords'') []))
                  (dict_get (form request) (lit ''tone'') (lit ''professional'')) = (calls, res)"
    by (rule prod.exhaust)
  note i = index_generate [OF assms, of create, unfolded g]
  show "api_calls (index create key request) =
           fst (generate_product_description create
                  (str_strip (dict_get (form request) (lit ''product_name'') []))
                  (str_strip (dict_get (form request) (lit ''keywords'') []))
                  (dict_get (form request) (lit ''tone'') (lit ''professional'')))"
    unfolding g i by (cases res) simp_all
  show "ctx_product_name (rendered (index create key request)) =
           str_strip (dict_get (form request) (lit ''product_name'') [])"
    unfolding i by (cases res) (simp_all add: render_template_def)
  show "ctx_keywords (rendered (index create key request)) =
           str_strip (dict_get (form request) (lit ''keywords'') [])"
    unfolding i by (cases res) (simp_all add: render_template_def)
  show "selected_tone (rendered (index create key request)) =
           dict_get (form request) (lit ''tone'') (lit ''professional'')"
    unfolding i by (cases res) (simp_all add: render_template_def)
qed

lemma lit_append: "lit a @ lit b = lit (a @ b)"
  by (simp add: lit_def)

lemma index_generate_failure:
  assumes "method request = lit ''POST''"
    and "str_strip (dict_get (form request) (lit ''product_name'') []) \<noteq> []"
    and "\<not> key_missing key"
    and "snd (generate_product_description create
                  (str_strip (dict_get (form request) (lit ''product_name'') []))
                  (str_strip (dict_get (form request) (lit ''keywords'') []))
                  (dict_get (form request) (lit ''tone'') (lit ''professional''))) = Inl e"
  shows "rendered (index create key request) =
           render_template None
             (str_strip (dict_get (form request) (lit ''product_name'') []))
             (str_strip (dict_get (form request) (lit ''keywords'') []))
             (dict_get (form request) (lit ''tone'') (lit ''professional''))"
    and "flashed (index create key request) =
           [(lit ''Sorry, something went wrong while generating the description. Please try again.'',
             lit ''danger'')]"
    and "logged (index create key request) =
           [LogException (lit ''Error while generating product description: %s'') e]"
proof -
  obtain calls where g: "generate_product_description create
                  (str_strip (dict_get (form request) (lit ''product_name'') []))
                  (str_strip (dict_get (form request) (lit ''keywords'') []))
                  (dict_get (form request) (lit ''tone'') (lit ''professional'')) = (calls, Inl e)"
    using assms(4) by (metis prod.collapse)
  note i = index_generate [OF assms(1-3), of create, unfolded g]
  show "rendered (index create key request) =
           render_template None
             (str_strip (dict_get (form request) (lit ''product_name'') []))
             (str_strip (dict_get (form request) (lit ''keywords'') []))
             (dict_get (form request) (lit ''tone'') (lit ''professional''))"
    unfolding i by simp
  show "flashed (index create key request) =
           [(lit ''Sorry, something went wrong while generating the description. Please try again.'',
             lit ''danger'')]"
    unfolding i by (simp add: lit_append)
  show "logged (index create key request) =
           [LogException (lit ''Error while generating product description: %s'') e]"
    unfolding i by simp
qed

lemma index_generate_success:
  assumes "method request = lit ''POST''"
    and "str_strip (dict_get (form request) (lit ''product_name'') []) \<noteq> []"
    and "\<not> key_missing key"
    and "snd (generate_product_description create
                  (str_strip (dict_get (form request) (lit ''product_name'') []))
                  (str_strip (dict_get (form request) (lit ''keywords'') []))
                  (dict_get (form request) (lit ''tone'') (lit ''professional''))) = Inr t"
  shows "generated_text (rendered (index create key request)) = Some t"
    and "flashed (index create key request) = []"
    and "logged (index create key request) = []"
proof -
  obtain calls where g: "generate_product_description create
                  (str_strip (dict_get (form request) (lit ''product_name'') []))
                  (str_strip (dict_get (form request) (lit ''keywords'') []))
                  (dict_get (form request) (lit ''tone'') (lit ''professional'')) = (calls, Inr t)"
    using assms(4) by (metis prod.collapse)
  note i = index_generate [OF assms(1-3), of create, unfolded g]
  show "generated_text (rendered (index create key request)) = Some t"
    unfolding i by (simp add: render_template_def)
  show "flashed (index create key request) = []"
    unfolding i by simp
  show "logged (index create key request) = []"
    unfolding i by simp
qed

lemma generate_failure_kinds:
  assumes "fst (generate_product_description create pn kw tk) = [req]"
  shows "create req = Inl e \<Longrightarrow> snd (generate_product_description create pn kw tk) = Inl e"
    and "create req = Inr response \<Longrightarrow> choices response = [] \<Longrightarrow>
           snd (generate_product_description create pn kw tk) = Inl IndexError"
    and "create req = Inr response \<Longrightarrow> choices response = c # rest \<Longrightarrow>
           content (message c) = None \<Longrightarrow>
           snd (generate_product_description create pn kw tk) = Inl AttributeError"
  using assms by (simp_all add: generate_result)

lemma generate_success_complete:
  assumes "snd (generate_product_description create pn kw tk) = Inr t"
  shows "\<exists>req response c rest body.
           fst (generate_product_description create pn kw tk) = [req] \<and>
           create req = Inr response \<and> choices response = c # rest \<and>
           content (message c) = Some body \<and> t = str_strip body"
proof -
  obtain req where r: "fst (generate_product_description create pn kw tk) = [req]"
    using generate_calls by blast
  from assms r show ?thesis
    by (auto simp: generate_result split: sum.splits list.splits option.splits)
qed

text \<open>
  Claim C3. For every submission that reaches the helper, every exception raised there
  (by the external boundary, whatever its cause, or by reading a response that has no
  candidate or no text) is caught by \<open>index\<close>: it is logged with the exception itself,
  the user gets one generic message that does not depend on the exception, and the
  generated text stays absent. There is no partial text: the page carries a text only
  when the helper returned one, and that text is the whole trimmed content of the first
  candidate of the response.
\<close>

theorem generation_failure_opaque:
  fixes create key request
  defines "pn \<equiv> str_strip (dict_get (form request) (lit ''product_name'') [])"
    and "kw \<equiv> str_strip (dict_get (form request) (lit ''keywords'') [])"
    and "tk \<equiv> dict_get (form request) (lit ''tone'') (lit ''professional'')"
    and "page \<equiv> index create key request"
  assumes "method request = lit ''POST''" and "pn \<noteq> []" and "\<not> key_missing key"
  shows "(\<forall>e. snd (generate_product_description create pn kw tk) = Inl e \<longrightarrow>
            generated_text (rendered page) = None \<and>
            rendered page = render_template None pn kw tk \<and>
            flashed page =
              [(lit ''Sorry, something went wrong while generating the description. Please try again.'',
                lit ''danger'')] \<and>
            logged page =
              [LogException (lit ''Error while generating product description: %s'') e]) \<and>
         (\<forall>t. snd (generate_product_description create pn kw tk) = Inr t \<longrightarrow>
            generated_text (rendered page) = Some t \<and> flashed page = [] \<and> logged page = [] \<and>
            (\<exists>req response c rest body.
               api_calls page = [req] \<and> create req = Inr response \<and>
               choices response = c # rest \<and> content (message c) = Some body \<and>
               t = str_strip body)) \<and>
         (\<exists>req. api_calls page = [req] \<and>
            (\<forall>e. create req = Inl e \<longrightarrow>
               snd (generate_product_description create pn kw tk) = Inl e) \<and>
            (\<forall>response. create req = Inr response \<longrightarrow> choices response = [] \<longrightarrow>
               snd (generate_product_description create pn kw tk) = Inl IndexError) \<and>
            (\<forall>response c rest. create req = Inr response \<longrightarrow> choices response = c # rest \<longrightarrow>
               content (message c) = None \<longrightarrow>
               snd (generate_product_description create pn kw tk) = Inl AttributeError))"
proof -
  note a = assms(5) assms(6) [unfolded pn_def] assms(7)
  have calls: "api_calls page = fst (generate_product_description create pn kw tk)"
    unfolding page_def pn_def kw_def tk_def by (rule index_generate_fields(1) [OF a])
  have A: "generated_text (rendered page) = None \<and>
            rendered page = render_template None pn kw tk \<and>
            flashed page =
              [(lit ''Sorry, something went wrong while generating the description. Please try again.'',
                lit ''danger'')] \<and>
            logged page =
              [LogException (lit ''Error while generating product description: %s'') e]"
    if "snd (generate_product_description create pn kw tk) = Inl e" for e
    using index_generate_failure [OF a, of create e] that
    unfolding page_def pn_def kw_def tk_def
    by (simp add: render_template_def)
  have B: "generated_text (rendered page) = Some t \<and> flashed page = [] \<and> logged page = [] \<and>
            (\<exists>req response c rest body.
               api_calls page = [req] \<and> create req = Inr response \<and>
               choices response = c # rest \<and> content (message c) = Some body \<and>
               t = str_strip body)"
    if "snd (generate_product_description create pn kw tk) = Inr t" for t
    using that index_generate_success [OF a, of create t] generate_success_complete [OF that]
    unfolding calls unfolding page_def pn_def kw_def tk_def
    by simp
  obtain req where r: "fst (generate_product_description create pn kw tk) = [req]"
    using generate_calls by blast
  have C: "\<exists>req. api_calls page = [req] \<and>
            (\<forall>e. create req = Inl e \<longrightarrow>
               snd (generate_product_description create pn kw tk) = Inl e) \<and>
            (\<forall>response. create req = Inr response \<longrightarrow> choices response = [] \<longrightarrow>
               snd (generate_product_description create pn kw tk) = Inl IndexError) \<and>
            (\<forall>response c rest. create req = Inr response \<longrightarrow> choices response = c # rest \<longrightarrow>
               content (message c) = None \<longrightarrow>
               snd (generate_product_description create pn kw tk) = Inl AttributeError)"
    using generate_failure_kinds [OF r] calls r by metis
  show ?thesis
    using A B C by blast
qed

theorem generation_failure_opaque_witness:
  "generated_text (rendered
     (index (\<lambda>r. Inl (APIError (lit ''401 invalid api key''))) (Some (lit ''sk-test''))
        \<lparr>method = lit ''POST'', form = [lit ''product_name'' \<mapsto> lit '' Desk Lamp '']\<rparr>)) = None \<and>
   flashed
     (index (\<lambda>r. Inl (APIError (lit ''401 invalid api key''))) (Some (lit ''sk-test''))
        \<lparr>method = lit ''POST'', form = [lit ''product_name'' \<mapsto> lit '' Desk Lamp '']\<rparr>) =
     [(lit ''Sorry, something went wrong while generating the description. Please try again.'',
       lit ''danger'')] \<and>
   logged
     (index (\<lambda>r. Inl (APIError (lit ''401 invalid api key''))) (Some (lit ''sk-test''))
        \<lparr>method = lit ''POST'', form = [lit ''product_name'' \<mapsto> lit '' Desk Lamp '']\<rparr>) =
     [LogException (lit ''Error while generating product description: %s'')
        (APIError (lit ''401 invalid api key''))]"
proof -
  let ?rq = "\<lparr>method = lit ''POST'', form = [lit ''product_name'' \<mapsto> lit '' Desk Lamp '']\<rparr>"
  let ?create = "\<lambda>r::api_request. Inl (APIError (lit ''401 invalid api key'')) :: exn + chat_completion"
  let ?key = "Some (lit ''sk-test'')"
  have m: "method ?rq = lit ''POST''"
    by simp
  have n: "str_strip (dict_get (form ?rq) (lit ''product_name'') []) \<noteq> []"
    by (simp add: dict_get_def lit_def str_strip_def isspace_def)
  have k: "\<not> key_missing ?key"
    by (simp add: key_missing_def truthy_def lit_def)
  have f: "snd (generate_product_description ?create
                  (str_strip (dict_get (form ?rq) (lit ''product_name'') []))
                  (str_strip (dict_get (form ?rq) (lit ''keywords'') []))
                  (dict_get (form ?rq) (lit ''tone'') (lit ''professional''))) =
           Inl (APIError (lit ''401 invalid api key''))"
    by (simp add: generate_result)
  note T = generation_failure_opaque [OF m n k, of ?create, THEN conjunct1, THEN spec, THEN mp, OF f]
  show ?thesis
    using T [THEN conjunct1] T [THEN conjunct2, THEN conjunct2, THEN conjunct1]
      T [THEN conjunct2, THEN conjunct2, THEN conjunct2]
    by (intro conjI)
qed

section \<open>Where the inputs are trimmed\<close>

lemma resolve_casual: "resolve_tone (lit ''casual'') = Inr casual_style"
  by (simp add: resolve_tone_def dict_getitem_def dict_get_def TONE_STYLES_def
        TONE_STYLES_items_def lit_def)

lemma chat_request_inject: "chat_request s u = chat_request s' u' \<longleftrightarrow> s = s' \<and> u = u'"
  by (auto simp: chat_request_def)

lemma user_message_product_name:
  "user_message product_name tone ti ks =
     lit ''Product name: '' @ product_name @ lit ''\<newline>'' @ drop 15 (user_message [] tone ti ks)"
  by (simp add: user_message_def lit_def)

text \<open>
  Claim C7 says that \<open>generate_product_description\<close> itself trims the product name.
  It does not: called with the name " Lamp" it sends "Product name:  Lamp", the leading
  space kept, which is not the message sent for the trimmed name "Lamp".
\<close>

theorem generate_trims_product_name_counterexample:
  "str_strip (lit '' Lamp'') = lit ''Lamp'' \<and>
   fst (generate_product_description (\<lambda>r. Inl (APIError [])) (lit '' Lamp'') [] (lit ''casual'')) =
     [chat_request system_message
        (lit ''Product name:  Lamp\<newline>Tone: Casual\<newline>Tone Instructions: '' @
         instruction casual_style @
         lit ''\<newline>Keywords to incorporate naturally: None\<newline>\<newline>'' @
         lit ''Write a compelling product description that:\<newline>'' @
         lit ''- Matches the tone described above\<newline>'' @
         lit ''- Naturally weaves in the keywords without sounding forced\<newline>'' @
         lit ''- Focuses on benefits, not just features\<newline>'' @
         lit ''- Speaks directly to retail customers shopping online\<newline>'')] \<and>
   fst (generate_product_description (\<lambda>r. Inl (APIError [])) (lit '' Lamp'') [] (lit ''casual'')) \<noteq>
   fst (generate_product_description (\<lambda>r. Inl (APIError [])) (str_strip (lit '' Lamp'')) []
          (lit ''casual''))"
proof -
  have s: "str_strip (lit '' Lamp'') = lit ''Lamp''"
    by (simp add: str_strip_def lit_def isspace_def)
  have k: "keyword_str [] = lit ''None''"
    by (simp add: keyword_str_def keyword_list_def str_strip_def truthy_def comma_def)
  have d: "dict_get TONE_STYLES (lit ''casual'') professional_style = casual_style"
    using resolve_casual unfolding resolve_tone_eq by simp
  have l: "label casual_style = lit ''Casual''"
    by (simp add: casual_style_def)
  have 1: "fst (generate_product_description (\<lambda>r. Inl (APIError [])) (lit '' Lamp'') []
             (lit ''casual'')) =
     [chat_request system_message
        (lit ''Product name:  Lamp\<newline>Tone: Casual\<newline>Tone Instructions: '' @
         instruction casual_style @
         lit ''\<newline>Keywords to incorporate naturally: None\<newline>\<newline>'' @
         lit ''Write a compelling product description that:\<newline>'' @
         lit ''- Matches the tone described above\<newline>'' @
         lit ''- Naturally weaves in the keywords without sounding forced\<newline>'' @
         lit ''- Focuses on benefits, not just features\<newline>'' @
         lit ''- Speaks directly to retail customers shopping online\<newline>'')]"
    unfolding generate_calls d k by (simp add: user_message_def l lit_def)
  have 2: "fst (generate_product_description (\<lambda>r. Inl (APIError [])) (lit '' Lamp'') []
             (lit ''casual'')) \<noteq>
       fst (generate_product_description (\<lambda>r. Inl (APIError [])) (str_strip (lit '' Lamp'')) []
             (lit ''casual''))"
    unfolding generate_calls s
    by (simp add: chat_request_inject user_message_product_name [of "lit '' Lamp''"]
          user_message_product_name [of "lit ''Lamp''"]) (simp add: lit_def)
  show ?thesis
    using s 1 2 by (intro conjI)
qed

text \<open>
  Claim C7, amended. \<open>generate_product_description\<close> puts the product name it is given
  into the user message as it is, right after "Product name: "; the name is trimmed by
  the caller: for a submission that reaches the helper, \<open>index\<close> passes the trimmed form
  value, so the user message it sends holds the trimmed product name.
\<close>

theorem product_name_trimmed_by_caller:
  "(\<exists>rest. \<forall>product_name.
      fst (generate_product_description create product_name keywords tone_key) =
        [chat_request system_message
           (lit ''Product name: '' @ product_name @ lit ''\<newline>'' @ rest)]) \<and>
   (method request = lit ''POST'' \<longrightarrow>
    str_strip (dict_get (form request) (lit ''product_name'') []) \<noteq> [] \<longrightarrow>
    \<not> key_missing key \<longrightarrow>
      ctx_product_name (rendered (index create key request)) =
        str_strip (dict_get (form request) (lit ''product_name'') []) \<and>
      (\<exists>rest. api_calls (index create key request) =
         [chat_request system_message
            (lit ''Product name: '' @
             str_strip (dict_get (form request) (lit ''product_name'') []) @
             lit ''\<newline>'' @ rest)]))"
proof -
  have g: "\<exists>rest. \<forall>product_name.
      fst (generate_product_description create product_name kw tk) =
        [chat_request system_message
           (lit ''Product name: '' @ product_name @ lit ''\<newline>'' @ rest)]" for kw tk
    unfolding generate_calls
    by (rule exI [of _ "drop 15 (user_message [] (dict_get TONE_STYLES tk professional_style)
          (instruction (dict_get TONE_STYLES tk professional_style)) (keyword_str kw))"])
       (simp add: user_message_product_name [symmetric])
  have i: "ctx_product_name (rendered (index create key request)) =
        str_strip (dict_get (form request) (lit ''product_name'') []) \<and>
      (\<exists>rest. api_calls (index create key request) =
         [chat_request system_message
            (lit ''Product name: '' @
             str_strip (dict_get (form request) (lit ''product_name'') []) @
             lit ''\<newline>'' @ rest)])"
    if "method request = lit ''POST''"
      "str_strip (dict_get (form request) (lit ''product_name'') []) \<noteq> []"
      "\<not> key_missing key"
    using index_generate_fields(1,2) [OF that, of create]
      g [of "str_strip (dict_get (form request) (lit ''keywords'') [])"
           "dict_get (form request) (lit ''tone'') (lit ''professional'')"]
    by metis
  show ?thesis
    using g [of "keywords" tone_key] i by blast
qed

theorem product_name_trimmed_by_caller_witness:
  "ctx_product_name (rendered
     (index (\<lambda>r. Inl (APIError [])) (Some (lit ''sk-test''))
        \<lparr>method = lit ''POST'', form = [lit ''product_name'' \<mapsto> lit ''  Desk Lamp '']\<rparr>)) =
     lit ''Desk Lamp'' \<and>
   (\<exists>rest. api_calls
      (index (\<lambda>r. Inl (APIError [])) (Some (lit ''sk-test''))
        \<lparr>method = lit ''POST'', form = [lit ''product_name'' \<mapsto> lit ''  Desk Lamp '']\<rparr>) =
      [chat_request system_message (lit ''Product name: '' @ lit ''Desk Lamp'' @ lit ''\<newline>'' @ rest)])"
proof -
  let ?rq = "\<lparr>method = lit ''POST'', form = [lit ''product_name'' \<mapsto> lit ''  Desk Lamp '']\<rparr>"
  let ?create = "\<lambda>r::api_request. Inl (APIError []) :: exn + chat_completion"
  let ?key = "Some (lit ''sk-test'')"
  have m: "method ?rq = lit ''POST''"
    by simp
  have s: "str_strip (dict_get (form ?rq) (lit ''product_name'') []) = lit ''Desk Lamp''"
    by (simp add: dict_get_def lit_def str_strip_def isspace_def)
  have n: "str_strip (dict_get (form ?rq) (lit ''product_name'') []) \<noteq> []"
    unfolding s by (simp add: lit_def)
  have k: "\<not> key_missing ?key"
    by (simp add: key_missing_def truthy_def lit_def)
  note T = product_name_trimmed_by_caller [of ?create _ _ ?rq ?key, THEN conjunct2, THEN mp,
      THEN mp, THEN mp, OF m n k]
  show ?thesis
    using T unfolding s .
qed

lemma TONE_STYLES_keys_trimmed: "k \<in> dom TONE_STYLES \<Longrightarrow> str_strip k = k"
  unfolding TONE_STYLES_dom
  by (auto simp: lit_def str_strip_def isspace_def)

lemma resolve_untrimmed:
  assumes "str_strip tone_key \<noteq> tone_key"
  shows "resolve_tone tone_key = Inr professional_style"
proof -
  have "tone_key \<notin> dom TONE_STYLES"
    using assms TONE_STYLES_keys_trimmed by blast
  then show ?thesis
    by (simp add: resolve_tone_eq dict_get_def dom_def)
qed

lemma resolve_professional: "resolve_tone (lit ''professional'') = Inr professional_style"
  by (simp add: resolve_tone_eq dict_get_def TONE_STYLES_professional)

lemma styles_differ: "professional_style \<noteq> casual_style"
  by (simp add: professional_style_def casual_style_def lit_def)

text \<open>
  Claim C8 says that the tone identifier is trimmed before use, so that " casual"
  resolves to the casual definition. It does not: \<open>index\<close> passes the form value
  " casual" as it is, and the lookup, which finds no such key, gives the professional
  definition, not the casual one.
\<close>

theorem tone_identifier_trimmed_counterexample:
  "resolve_tone (lit '' casual'') = Inr professional_style \<and>
   resolve_tone (lit ''casual'') = Inr casual_style \<and>
   professional_style \<noteq> casual_style \<and>
   selected_tone (rendered
     (index (\<lambda>r. Inl (APIError [])) (Some (lit ''sk-test''))
        \<lparr>method = lit ''POST'',
         form = [lit ''product_name'' \<mapsto> lit ''Lamp'', lit ''tone'' \<mapsto> lit '' casual'']\<rparr>)) =
     lit '' casual'' \<and>
   api_calls
     (index (\<lambda>r. Inl (APIError [])) (Some (lit ''sk-test''))
        \<lparr>method = lit ''POST'',
         form = [lit ''product_name'' \<mapsto> lit ''Lamp'', lit ''tone'' \<mapsto> lit '' casual'']\<rparr>) =
     [chat_request system_message
        (user_message (lit ''Lamp'') professional_style (instruction professional_style)
           (lit ''None''))] \<and>
   api_calls
     (index (\<lambda>r. Inl (APIError [])) (Some (lit ''sk-test''))
        \<lparr>method = lit ''POST'',
         form = [lit ''product_name'' \<mapsto> lit ''Lamp'', lit ''tone'' \<mapsto> lit '' casual'']\<rparr>) \<noteq>
     [chat_request system_message
        (user_message (lit ''Lamp'') casual_style (instruction casual_style) (lit ''None''))]"
proof -
  let ?rq = "\<lparr>method = lit ''POST'',
         form = [lit ''product_name'' \<mapsto> lit ''Lamp'', lit ''tone'' \<mapsto> lit '' casual'']\<rparr>"
  let ?create = "\<lambda>r::api_request. Inl (APIError []) :: exn + chat_completion"
  let ?key = "Some (lit ''sk-test'')"
  have u: "str_strip (lit '' casual'') \<noteq> lit '' casual''"
    by (simp add: str_strip_def lit_def isspace_def)
  have 1: "resolve_tone (lit '' casual'') = Inr professional_style"
    by (rule resolve_untrimmed [OF u])
  have d: "dict_get TONE_STYLES (lit '' casual'') professional_style = professional_style"
    using 1 unfolding resolve_tone_eq by simp
  have m: "method ?rq = lit ''POST''"
    by simp
  have p: "str_strip (dict_get (form ?rq) (lit ''product_name'') []) = lit ''Lamp''"
    by (simp add: dict_get_def lit_def str_strip_def isspace_def)
  have q: "str_strip (dict_get (form ?rq) (lit ''keywords'') []) = []"
    by (simp add: dict_get_def lit_def str_strip_def)
  have t: "dict_get (form ?rq) (lit ''tone'') (lit ''professional'') = lit '' casual''"
    by (simp add: dict_get_def lit_def)
  have n: "str_strip (dict_get (form ?rq) (lit ''product_name'') []) \<noteq> []"
    unfolding p by (simp add: lit_def)
  have k: "\<not> key_missing ?key"
    by (simp add: key_missing_def truthy_def lit_def)
  have ks: "keyword_str [] = lit ''None''"
    by (simp add: keyword_str_def keyword_list_def str_strip_def truthy_def comma_def)
  note F = index_generate_fields [OF m n k, of ?create, unfolded p q t]
  have 4: "selected_tone (rendered (index ?create ?key ?rq)) = lit '' casual''"
    by (rule F(4))
  have 5: "api_calls (index ?create ?key ?rq) =
     [chat_request system_message
        (user_message (lit ''Lamp'') professional_style (instruction professional_style)
           (lit ''None''))]"
    unfolding F(1) generate_calls d ks ..
  have 6: "api_calls (index ?create ?key ?rq) \<noteq>
     [chat_request system_message
        (user_message (lit ''Lamp'') casual_style (instruction casual_style) (lit ''None''))]"
    unfolding 5
    by (simp add: chat_request_inject user_message_def professional_style_def casual_style_def)
       (simp add: lit_def)
  show ?thesis
    using 1 resolve_casual styles_differ 4 5 6 by (intro conjI)
qed

text \<open>
  Claim C8, amended. Of the three inbound fields, the product name and the raw keyword
  string are trimmed by the caller before use; the tone identifier is used as it is
  submitted, by the caller and by the lookup. An absent tone identifier maps to the
  default, and so does every identifier with leading or trailing whitespace, a padded
  valid key such as " casual" included.
\<close>

theorem tone_identifier_used_verbatim:
  "(method request = lit ''POST'' \<longrightarrow>
    str_strip (dict_get (form request) (lit ''product_name'') []) \<noteq> [] \<longrightarrow>
    \<not> key_missing key \<longrightarrow>
      api_calls (index create key request) =
        fst (generate_product_description create
               (str_strip (dict_get (form request) (lit ''product_name'') []))
               (str_strip (dict_get (form request) (lit ''keywords'') []))
               (dict_get (form request) (lit ''tone'') (lit ''professional''))) \<and>
      ctx_product_name (rendered (index create key request)) =
        str_strip (dict_get (form request) (lit ''product_name'') []) \<and>
      ctx_keywords (rendered (index create key request)) =
        str_strip (dict_get (form request) (lit ''keywords'') []) \<and>
      selected_tone (rendered (index create key request)) =
        dict_get (form request) (lit ''tone'') (lit ''professional'')) \<and>
   (form request (lit ''tone'') = None \<longrightarrow>
      dict_get (form request) (lit ''tone'') (lit ''professional'') = lit ''professional'' \<and>
      resolve_tone (dict_get (form request) (lit ''tone'') (lit ''professional'')) =
        Inr professional_style) \<and>
   (str_strip tone_key \<noteq> tone_key \<longrightarrow> resolve_tone tone_key = Inr professional_style) \<and>
   (\<exists>tone. resolve_tone tone_key = Inr tone \<and>
      fst (generate_product_description create product_name keywords tone_key) =
        [chat_request system_message
           (user_message product_name tone (instruction tone) (keyword_str keywords))])"
proof -
  have a: "form request (lit ''tone'') = None \<longrightarrow>
      dict_get (form request) (lit ''tone'') (lit ''professional'') = lit ''professional'' \<and>
      resolve_tone (dict_get (form request) (lit ''tone'') (lit ''professional'')) =
        Inr professional_style"
    by (simp add: dict_get_def resolve_professional)
  have g: "\<exists>tone. resolve_tone tone_key = Inr tone \<and>
      fst (generate_product_description create product_name keywords tone_key) =
        [chat_request system_message
           (user_message product_name tone (instruction tone) (keyword_str keywords))]"
    by (simp add: resolve_tone_eq generate_calls)
  show ?thesis
    using index_generate_fields [of request key create] a resolve_untrimmed [of tone_key] g
    by blast
qed

theorem tone_identifier_used_verbatim_witness:
  "resolve_tone (lit '' casual'') = Inr professional_style \<and>
   resolve_tone (lit ''luxury '') = Inr professional_style \<and>
   selected_tone (rendered
     (index (\<lambda>r. Inl (APIError [])) (Some (lit ''sk-test''))
        \<lparr>method = lit ''POST'', form = [lit ''product_name'' \<mapsto> lit ''Lamp'']\<rparr>)) =
     lit ''professional'' \<and>
   resolve_tone (dict_get
       (form \<lparr>method = lit ''POST'', form = [lit ''product_name'' \<mapsto> lit ''Lamp'']\<rparr>)
       (lit ''tone'') (lit ''professional'')) = Inr professional_style"
proof -
  let ?rq = "\<lparr>method = lit ''POST'', form = [lit ''product_name'' \<mapsto> lit ''Lamp'']\<rparr>"
  let ?create = "\<lambda>r::api_request. Inl (APIError []) :: exn + chat_completion"
  let ?key = "Some (lit ''sk-test'')"
  have u: "str_strip (lit '' casual'') \<noteq> lit '' casual''"
    "str_strip (lit ''luxury '') \<noteq> lit ''luxury ''"
    by (simp_all add: str_strip_def lit_def isspace_def)
  have m: "method ?rq = lit ''POST''"
    by simp
  have n: "str_strip (dict_get (form ?rq) (lit ''product_name'') []) \<noteq> []"
    by (simp add: dict_get_def lit_def str_strip_def isspace_def)
  have k: "\<not> key_missing ?key"
    by (simp add: key_missing_def truthy_def lit_def)
  have z: "form ?rq (lit ''tone'') = None"
    by (simp add: lit_def)
  note T = tone_identifier_used_verbatim [of ?rq ?key ?create]
  note A = T [THEN conjunct1, THEN mp, THEN mp, THEN mp, OF m n k]
  note B = T [THEN conjunct2, THEN conjunct1, THEN mp, OF z]
  have 1: "resolve_tone (lit '' casual'') = Inr professional_style"
    by (rule tone_identifier_used_verbatim [of ?rq ?key ?create "lit '' casual''",
          THEN conjunct2, THEN conjunct2, THEN conjunct1, THEN mp, OF u(1)])
  have 2: "resolve_tone (lit ''luxury '') = Inr professional_style"
    by (rule tone_identifier_used_verbatim [of ?rq ?key ?create "lit ''luxury ''",
          THEN conjunct2, THEN conjunct2, THEN conjunct1, THEN mp, OF u(2)])
  have 3: "selected_tone (rendered (index ?create ?key ?rq)) = lit ''professional''"
    using A [THEN conjunct2, THEN conjunct2, THEN conjunct2] B [THEN conjunct1] by simp
  show ?thesis
    using 1 2 3 B [THEN conjunct2] by (intro conjI)
qed

end
